theory Spec2Isabelle
  imports Main
begin

section \<open>Outcomes: status kinds, errors, attachments\<close>

text \<open>
  Modelled from the spec: the packages \<^verbatim>\<open>internal/codes\<close> and \<^verbatim>\<open>internal/status\<close> are not
  among the sources. The spec gives the closed taxonomy of status kinds; \<^verbatim>\<open>status.Errorf\<close>
  builds an error of the given kind carrying the formatted message.
\<close>

datatype Code =
  OK | InvalidArgument | Unimplemented | Unavailable | DeadlineExceeded | Canceled
  | Internal | Unknown

datatype error = StatusError Code string | PlainError string

definition Errorf :: "Code \<Rightarrow> string \<Rightarrow> error" where
  "Errorf c msg = StatusError c msg"

text \<open>
  Modelled from the spec: \<^verbatim>\<open>common.TripleAttachment\<close> and \<^verbatim>\<open>common.ErrorWithAttachment\<close> are
  declared in a file of \<^verbatim>\<open>pkg/common\<close> that is not among the sources. The attachment map is
  string-keyed; an ErrorWithAttachment is the pair of an optional error (\<open>None\<close> is Go's
  \<^verbatim>\<open>nil\<close>) and an attachment map, read by \<^verbatim>\<open>GetError\<close> and \<^verbatim>\<open>GetAttachments\<close>.
  \<^verbatim>\<open>make(common.TripleAttachment)\<close> is the empty map.
\<close>

type_synonym TripleAttachment = "string \<rightharpoonup> string"

record ErrorWithAttachment =
  err :: "error option"
  attachments :: TripleAttachment

definition NewErrorWithAttachment :: "error option \<Rightarrow> TripleAttachment \<Rightarrow> ErrorWithAttachment" where
  "NewErrorWithAttachment e attachment = \<lparr>err = e, attachments = attachment\<rparr>"

definition GetError :: "ErrorWithAttachment \<Rightarrow> error option" where
  "GetError e = err e"

definition GetAttachments :: "ErrorWithAttachment \<Rightarrow> TripleAttachment" where
  "GetAttachments e = attachments e"

section \<open>Go values\<close>

text \<open>
  A value of type \<^verbatim>\<open>interface{}\<close>: \<^verbatim>\<open>nil\<close>, a string, a \<^verbatim>\<open>context.Context\<close> (the chain of
  its key/value bindings, innermost first), a non-nil value implementing \<^verbatim>\<open>error\<close>, a
  \<^verbatim>\<open>common.ErrorWithAttachment\<close> struct, a \<^verbatim>\<open>[]interface{}\<close>, or any other non-nil value
  (a request or response message), which is none of the former.
\<close>

datatype iface =
  INil
  | IString string
  | IContext "(string \<times> iface) list"
  | IError error
  | IErrorWithAttachment ErrorWithAttachment
  | ISlice "iface list"
  | IOther string

type_synonym Context = "(string \<times> iface) list"

text \<open>\<^verbatim>\<open>ctx.Value(key)\<close>: the innermost binding of the key, \<^verbatim>\<open>nil\<close> when there is none.\<close>

definition ctx_Value :: "Context \<Rightarrow> string \<Rightarrow> iface" where
  "ctx_Value ctx key = (case map_of ctx key of None \<Rightarrow> INil | Some v \<Rightarrow> v)"

text \<open>
  What makes a Go function stop without returning: the panics of package \<^verbatim>\<open>reflect\<close>
  (\<^verbatim>\<open>*reflect.ValueError\<close>, named by the method called on the zero Value), a failed type
  assertion without the comma-ok form, an index out of range, and a panic raised inside a
  callee.
\<close>

datatype panic =
  ValueError string
  | TypeAssertionError string
  | IndexOutOfRange
  | CalleePanic string

subsection \<open>Package reflect\<close>

text \<open>
  A \<^verbatim>\<open>reflect.Value\<close> holding a datum is either the zero Value (\<open>Invalid\<close>, of kind Invalid)
  or a valid Value with the interface value it holds; a valid Value of interface kind may
  hold \<^verbatim>\<open>nil\<close>, which is how a callee's \<^verbatim>\<open>nil\<close> error result comes back from \<^verbatim>\<open>Call\<close>.
  \<^verbatim>\<open>Interface\<close> panics on the zero Value.
\<close>

datatype reflect_Value = Invalid | Valid iface

fun IsValid :: "reflect_Value \<Rightarrow> bool" where
  "IsValid Invalid = False"
| "IsValid (Valid x) = True"

fun Interface :: "reflect_Value \<Rightarrow> panic + iface" where
  "Interface Invalid = Inl (ValueError ''reflect.Value.Interface'')"
| "Interface (Valid x) = Inr x"

text \<open>
  The generated stub held in \<^verbatim>\<open>stubInvoker\<close> is modelled by its method set. A bound method
  takes the argument Values; it reaches the transport controller through the
  \<^verbatim>\<open>TripleConn\<close> it was built with, so it takes and returns the controller's state \<open>'h\<close>; it
  returns its result Values unless it panics (\<^verbatim>\<open>Call\<close> itself panics on arguments that do
  not fit the method's signature). The reply target is not among what a bound method is
  given.
\<close>

type_synonym 'h callable =
  "reflect_Value list \<Rightarrow> 'h \<Rightarrow> (panic + reflect_Value list) \<times> 'h"

type_synonym 'h stub = "string \<rightharpoonup> 'h callable"

text \<open>The Value of the stub: the zero Value, or the Value of a stub object.\<close>

datatype 'h stub_Value = NoStub | StubObj "'h stub"

text \<open>\<^verbatim>\<open>reflect.ValueOf\<close> of what \<^verbatim>\<open>getInvoker\<close> returns (\<open>None\<close> is a \<^verbatim>\<open>nil\<close> interface).\<close>

fun ValueOf_stub :: "'h stub option \<Rightarrow> 'h stub_Value" where
  "ValueOf_stub None = NoStub"
| "ValueOf_stub (Some s) = StubObj s"

text \<open>The Value that \<^verbatim>\<open>MethodByName\<close> returns: the zero Value, or a function Value.\<close>

datatype 'h method_Value = NoMethod | BoundMethod "'h callable"

text \<open>
  \<^verbatim>\<open>v.MethodByName(name)\<close> panics when \<open>v\<close> is the zero Value; it "returns the zero Value
  if no method was found", otherwise the function Value of the method, bound to \<open>v\<close>.
  Lookup is by exact name.
\<close>

fun MethodByName :: "'h stub_Value \<Rightarrow> string \<Rightarrow> panic + 'h method_Value" where
  "MethodByName NoStub name = Inl (ValueError ''reflect.Value.MethodByName'')"
| "MethodByName (StubObj ms) name =
     Inr (case ms name of None \<Rightarrow> NoMethod | Some f \<Rightarrow> BoundMethod f)"

text \<open>
  \<^verbatim>\<open>v.IsZero()\<close> "reports whether v is the zero value for its type. It panics if the
  argument is invalid": the switch on \<^verbatim>\<open>v.kind()\<close> has no case for kind Invalid and its
  default branch panics with a \<^verbatim>\<open>ValueError\<close>. For a Value of kind Func it is \<^verbatim>\<open>v.IsNil()\<close>,
  which is false for a method Value.
\<close>

fun IsZero :: "'h method_Value \<Rightarrow> panic + bool" where
  "IsZero NoMethod = Inl (ValueError ''reflect.Value.IsZero'')"
| "IsZero (BoundMethod f) = Inr False"

fun Call :: "'h method_Value \<Rightarrow> reflect_Value list \<Rightarrow> 'h \<Rightarrow> (panic + reflect_Value list) \<times> 'h" where
  "Call NoMethod inp h = (Inl (ValueError ''reflect.Value.Call''), h)"
| "Call (BoundMethod f) inp h = f inp h"

section \<open>The client and what it is built on\<close>

text \<open>
  \<^verbatim>\<open>config.Option\<close>: of its fields the client reads the codec type and the logger. Logging
  has no effect on what the operations return or change, and is left out.
\<close>

record Option =
  CodecType :: string

typedecl ClientStream

text \<open>
  The parts of the repository that the client calls and that are not among the sources,
  taken as parameters: the two constants of \<^verbatim>\<open>pkg/common/constant\<close>,
  \<^verbatim>\<open>tools.AddDefaultOption\<close> (its argument may be \<^verbatim>\<open>nil\<close>), \<^verbatim>\<open>http2.NewTripleController\<close> and
  the controller's four methods over the controller's state \<open>'h\<close>, \<^verbatim>\<open>getInvoker\<close> (given the
  implementation object and the connection wrapping the new client, it returns the stub
  as an \<^verbatim>\<open>interface{}\<close>), and \<^verbatim>\<open>tools.ReflectResponse\<close> (given a Value and the reply target,
  it returns an error or \<^verbatim>\<open>nil\<close> and leaves the reply target as its second result).
\<close>

record 'h extern =
  PBCodecName :: string
  InterfaceKey :: string
  AddDefaultOption :: "Option option \<Rightarrow> Option"
  NewTripleController :: "Option \<Rightarrow> error + 'h"
  getInvoker :: "iface \<Rightarrow> 'h stub option"
  UnaryInvoke :: "'h \<Rightarrow> Context \<Rightarrow> string \<Rightarrow> iface \<Rightarrow> iface \<Rightarrow> ErrorWithAttachment \<times> iface \<times> 'h"
  StreamInvoke :: "'h \<Rightarrow> Context \<Rightarrow> string \<Rightarrow> (error + ClientStream) \<times> 'h"
  Destroy :: "'h \<Rightarrow> 'h"
  ControllerIsAvailable :: "'h \<Rightarrow> bool"
  ReflectResponse :: "reflect_Value \<Rightarrow> iface \<Rightarrow> error option \<times> iface"

text \<open>
  \<^verbatim>\<open>TripleClient\<close>. The field \<open>h2Controller\<close> holds the state of the controller the client
  points to; \<open>once\<close> is the done flag of the \<^verbatim>\<open>sync.Once\<close>, false in the zero value.
\<close>

record 'h TripleClient =
  h2Controller :: 'h
  stubInvoker :: "'h stub_Value"
  once :: bool
  opt :: Option
  serializer :: iface

text \<open>
  \<^verbatim>\<open>NewTripleClient(impl, opt)\<close>: the error of \<^verbatim>\<open>NewTripleController\<close>, or the new client. The
  struct literal sets \<open>opt\<close> and \<open>h2Controller\<close> and leaves the other fields at their zero
  values.
\<close>

definition NewTripleClient :: "'h extern \<Rightarrow> iface \<Rightarrow> Option option \<Rightarrow> error + 'h TripleClient" where
  "NewTripleClient ext impl opt0 =
     (let opt1 = AddDefaultOption ext opt0 in
      case NewTripleController ext opt1 of
        Inl e \<Rightarrow> Inl e
      | Inr h \<Rightarrow>
          (let tripleClient =
                 \<lparr>h2Controller = h, stubInvoker = NoStub, once = False, opt = opt1,
                  serializer = INil\<rparr>
           in Inr (if CodecType opt1 = PBCodecName ext
                   then tripleClient\<lparr>stubInvoker := ValueOf_stub (getInvoker ext impl)\<rparr>
                   else tripleClient)))"

text \<open>\<^verbatim>\<open>Request\<close>: the controller's \<^verbatim>\<open>UnaryInvoke\<close> with the same arguments.\<close>

definition Request ::
  "'h extern \<Rightarrow> 'h TripleClient \<Rightarrow> Context \<Rightarrow> string \<Rightarrow> iface \<Rightarrow> iface
    \<Rightarrow> ErrorWithAttachment \<times> iface \<times> 'h TripleClient" where
  "Request ext t ctx path arg reply =
     (case UnaryInvoke ext (h2Controller t) ctx path arg reply of
        (r, reply', h) \<Rightarrow> (r, reply', t\<lparr>h2Controller := h\<rparr>))"

definition StreamRequest ::
  "'h extern \<Rightarrow> 'h TripleClient \<Rightarrow> Context \<Rightarrow> string \<Rightarrow> (error + ClientStream) \<times> 'h TripleClient" where
  "StreamRequest ext t ctx path =
     (case StreamInvoke ext (h2Controller t) ctx path of
        (r, h) \<Rightarrow> (r, t\<lparr>h2Controller := h\<rparr>))"

text \<open>\<^verbatim>\<open>Close\<close>: logs, then calls the controller's \<^verbatim>\<open>Destroy\<close>.\<close>

definition Close :: "'h extern \<Rightarrow> 'h TripleClient \<Rightarrow> 'h TripleClient" where
  "Close ext t = t\<lparr>h2Controller := Destroy ext (h2Controller t)\<rparr>"

definition IsAvailable :: "'h extern \<Rightarrow> 'h TripleClient \<Rightarrow> bool" where
  "IsAvailable ext t = ControllerIsAvailable ext (h2Controller t)"

text \<open>
  The loop of \<^verbatim>\<open>Invoke\<close> over \<^verbatim>\<open>in\<close>: every Value but the one at index 0 is unpacked with
  \<^verbatim>\<open>Interface\<close> and appended to \<open>reqParams\<close>.
\<close>

fun Invoke_reqParams :: "nat \<Rightarrow> reflect_Value list \<Rightarrow> iface list \<Rightarrow> panic + iface list" where
  "Invoke_reqParams idx [] reqParams = Inr reqParams"
| "Invoke_reqParams idx (v # vs) reqParams =
     (if idx > 0 then
        (case Interface v of
           Inl p \<Rightarrow> Inl p
         | Inr x \<Rightarrow> Invoke_reqParams (Suc idx) vs (reqParams @ [x]))
      else Invoke_reqParams (Suc idx) vs reqParams)"

text \<open>
  \<^verbatim>\<open>Invoke(methodName, in, reply)\<close>. The result is what the call returns, or the panic that
  ends it, with the reply target (\<^verbatim>\<open>nil\<close>, or the value it points to) and the client as the
  call leaves them.
\<close>

definition Invoke ::
  "'h extern \<Rightarrow> 'h TripleClient \<Rightarrow> string \<Rightarrow> reflect_Value list \<Rightarrow> iface
    \<Rightarrow> (panic + ErrorWithAttachment) \<times> iface \<times> 'h TripleClient" where
  "Invoke ext t methodName inp reply =
     (let attachment = Map.empty in
      if CodecType (opt t) = PBCodecName ext then
        (case MethodByName (stubInvoker t) methodName of
           Inl p \<Rightarrow> (Inl p, reply, t)
         | Inr method \<Rightarrow>
            (case IsZero method of
               Inl p \<Rightarrow> (Inl p, reply, t)
             | Inr z \<Rightarrow>
                if z then
                  (Inr (NewErrorWithAttachment
                          (Some (Errorf Unimplemented
                             (''TripleClient.Invoke: methodName '' @ methodName
                                @ '' not impl in triple client api.'')))
                          attachment),
                   reply, t)
                else
                  (case Call method inp (h2Controller t) of
                     (Inl p, h) \<Rightarrow> (Inl p, reply, t\<lparr>h2Controller := h\<rparr>)
                   | (Inr res, h) \<Rightarrow>
                      (let t' = t\<lparr>h2Controller := h\<rparr>;
                           finish = (\<lambda>attachment.
                             (Inr (NewErrorWithAttachment None attachment),
                              snd (ReflectResponse ext (res ! 0) reply), t'))
                       in
                       if length res \<le> 1 then (Inl IndexOutOfRange, reply, t')
                       else
                         (case Interface (res ! 1) of
                            Inl p \<Rightarrow> (Inl p, reply, t')
                          | Inr x \<Rightarrow>
                             (case x of
                                IErrorWithAttachment errWithAtta \<Rightarrow>
                                  (case GetError errWithAtta of
                                     Some e \<Rightarrow>
                                       (Inr (NewErrorWithAttachment (GetError errWithAtta) attachment),
                                        reply, t')
                                   | None \<Rightarrow> finish (GetAttachments errWithAtta))
                              | _ \<Rightarrow>
                                 if IsValid (res ! 1) \<and> x \<noteq> INil then
                                   (case x of
                                      IError e \<Rightarrow>
                                        (Inr (NewErrorWithAttachment (Some e) attachment), reply, t')
                                    | _ \<Rightarrow> (Inl (TypeAssertionError ''error''), reply, t'))
                                 else finish attachment))))))
      else
        (case inp of
           [] \<Rightarrow> (Inl IndexOutOfRange, reply, t)
         | in0 # _ \<Rightarrow>
            (case Interface in0 of
               Inl p \<Rightarrow> (Inl p, reply, t)
             | Inr c \<Rightarrow>
                (case c of
                   IContext ctx \<Rightarrow>
                     (case ctx_Value ctx (InterfaceKey ext) of
                        IString interfaceKey \<Rightarrow>
                          (case Invoke_reqParams 0 inp [] of
                             Inl p \<Rightarrow> (Inl p, reply, t)
                           | Inr reqParams \<Rightarrow>
                              (case Request ext t ctx
                                      (''/'' @ interfaceKey @ ''/'' @ methodName)
                                      (ISlice reqParams) reply of
                                 (r, reply', t') \<Rightarrow> (Inr r, reply', t')))
                      | _ \<Rightarrow> (Inl (TypeAssertionError ''string''), reply, t))
                 | _ \<Rightarrow> (Inl (TypeAssertionError ''context.Context''), reply, t)))))"

text \<open>
  A call on the client's surface, and the client as the call leaves it (\<^verbatim>\<open>IsAvailable\<close>
  returns a boolean and nothing else).
\<close>

datatype call =
  CallInvoke string "reflect_Value list" iface
  | CallRequest Context string iface iface
  | CallStreamRequest Context string
  | CallClose
  | CallIsAvailable

fun client_after :: "'h extern \<Rightarrow> call \<Rightarrow> 'h TripleClient \<Rightarrow> 'h TripleClient" where
  "client_after ext (CallInvoke methodName inp reply) t = snd (snd (Invoke ext t methodName inp reply))"
| "client_after ext (CallRequest ctx path arg reply) t = snd (snd (Request ext t ctx path arg reply))"
| "client_after ext (CallStreamRequest ctx path) t = snd (StreamRequest ext t ctx path)"
| "client_after ext CallClose t = Close ext t"
| "client_after ext CallIsAvailable t = t"

section \<open>A concrete client\<close>

text \<open>
  A controller whose state is the log of the calls made on it, a stub with four methods
  (one per shape of the second result slot), and a copy into the reply target that fails
  on a \<^verbatim>\<open>nil\<close> target. The theorems below are instantiated on them.
\<close>

datatype h2_event = UnaryInvoked string iface | StreamInvoked string | Destroyed

definition example_method :: "string \<Rightarrow> reflect_Value \<Rightarrow> h2_event list callable" where
  "example_method path slot1 =
     (\<lambda>inp h. (Inr [Valid (IOther ''user''), slot1], h @ [UnaryInvoked path (ISlice [])]))"

definition example_stub :: "h2_event list stub" where
  "example_stub =
     [''SayHello'' \<mapsto> example_method ''/greeter/SayHello''
         (Valid (IErrorWithAttachment \<lparr>err = None, attachments = [''trace'' \<mapsto> ''t1'']\<rparr>)),
      ''SayHelloDown'' \<mapsto> example_method ''/greeter/SayHelloDown''
         (Valid (IErrorWithAttachment
            \<lparr>err = Some (StatusError Unavailable ''down''),
             attachments = [''trace'' \<mapsto> ''t2'']\<rparr>)),
      ''OldSayHello'' \<mapsto> example_method ''/greeter/OldSayHello'' (Valid INil),
      ''OldSayHelloDown'' \<mapsto> example_method ''/greeter/OldSayHelloDown''
         (Valid (IError (PlainError ''down'')))]"

definition example_ext :: "h2_event list extern" where
  "example_ext =
     \<lparr>PBCodecName = ''protobuf'',
      InterfaceKey = ''interface'',
      AddDefaultOption = (\<lambda>opt0. case opt0 of None \<Rightarrow> \<lparr>CodecType = ''protobuf''\<rparr> | Some x \<Rightarrow> x),
      NewTripleController = (\<lambda>opt1. Inr []),
      getInvoker = (\<lambda>impl. Some example_stub),
      UnaryInvoke = (\<lambda>h ctx path arg reply.
         (\<lparr>err = None, attachments = Map.empty\<rparr>, IOther ''response'',
          h @ [UnaryInvoked path arg])),
      StreamInvoke = (\<lambda>h ctx path. (Inl (PlainError ''no stream''), h @ [StreamInvoked path])),
      Destroy = (\<lambda>h. h @ [Destroyed]),
      ControllerIsAvailable = (\<lambda>h. h = []),
      ReflectResponse = (\<lambda>v reply.
         case reply of
           INil \<Rightarrow> (Some (PlainError ''@out is nil''), reply)
         | _ \<Rightarrow> (case v of
                  Invalid \<Rightarrow> (Some (PlainError ''@in is nil''), reply)
                | Valid x \<Rightarrow> (None, x)))\<rparr>"

text \<open>A client in typed mode and a client in dynamic mode, both with a fresh controller.\<close>

definition example_pb_client :: "h2_event list TripleClient" where
  "example_pb_client =
     \<lparr>h2Controller = [], stubInvoker = StubObj example_stub, once = False,
      opt = \<lparr>CodecType = ''protobuf''\<rparr>, serializer = INil\<rparr>"

definition example_dyn_client :: "h2_event list TripleClient" where
  "example_dyn_client =
     \<lparr>h2Controller = [], stubInvoker = NoStub, once = False,
      opt = \<lparr>CodecType = ''hessian2''\<rparr>, serializer = INil\<rparr>"

section \<open>Dynamic mode\<close>

text \<open>The loop keeps the arguments after the first, in their order.\<close>

lemma Invoke_reqParams_Valid:
  "Invoke_reqParams (Suc n) (map Valid as) acc = Inr (acc @ as)"
  by (induction as arbitrary: n acc) simp_all

text \<open>
  C4. In dynamic mode (the codec is not the protobuf one), when the first argument holds a
  context whose interface key is the string \<open>K\<close> and the remaining arguments hold the
  values \<open>as\<close>, \<open>Invoke\<close> is the call of \<open>Request\<close> with that context, the path
  \<open>"/" + K + "/" + methodName\<close>, the parameter list \<open>as\<close> in the same order (the context
  left out) and the same reply target; what \<open>Request\<close> returns is returned unchanged.
\<close>

theorem Invoke_dynamic_delegates:
  assumes dyn: "CodecType (opt t) \<noteq> PBCodecName ext"
    and key: "ctx_Value ctx (InterfaceKey ext) = IString K"
  shows "Invoke ext t methodName (Valid (IContext ctx) # map Valid as) reply =
           (case Request ext t ctx (''/'' @ K @ ''/'' @ methodName) (ISlice as) reply of
              (r, reply', t') \<Rightarrow> (Inr r, reply', t'))"
proof -
  have "Invoke_reqParams 0 (Valid (IContext ctx) # map Valid as) [] = Inr as"
    by (simp add: Invoke_reqParams_Valid)
  with dyn key show ?thesis
    by (simp add: Invoke_def)
qed

text \<open>
  The example of the spec: the call reaches the controller once, with the path
  \<open>/com.example.IGreeter/BigUnaryTest\<close> and \<open>req\<close> as the only parameter.
\<close>

theorem Invoke_dynamic_delegates_witness:
  "CodecType (opt example_dyn_client) \<noteq> PBCodecName example_ext
   \<and> ctx_Value [(''interface'', IString ''com.example.IGreeter'')] (InterfaceKey example_ext)
       = IString ''com.example.IGreeter''
   \<and> Invoke example_ext example_dyn_client ''BigUnaryTest''
        (Valid (IContext [(''interface'', IString ''com.example.IGreeter'')])
           # map Valid [IOther ''req'']) INil
       = (Inr \<lparr>err = None, attachments = Map.empty\<rparr>, IOther ''response'',
          example_dyn_client\<lparr>h2Controller :=
            [UnaryInvoked ''/com.example.IGreeter/BigUnaryTest'' (ISlice [IOther ''req''])]\<rparr>)"
proof -
  have dyn: "CodecType (opt example_dyn_client) \<noteq> PBCodecName example_ext"
    by (simp add: example_dyn_client_def example_ext_def)
  have key: "ctx_Value [(''interface'', IString ''com.example.IGreeter'')] (InterfaceKey example_ext)
       = IString ''com.example.IGreeter''"
    by (simp add: ctx_Value_def example_ext_def)
  show ?thesis
    using dyn key
      Invoke_dynamic_delegates [OF dyn key, of "''BigUnaryTest''" "[IOther ''req'']" INil]
    by (simp add: Request_def example_ext_def example_dyn_client_def)
qed

section \<open>Typed mode\<close>

text \<open>
  Once the method is found and its call has returned at least two results, the second of
  them a valid Value, \<open>Invoke\<close> is decided by the interface value \<open>x\<close> in that slot.
\<close>

lemma Invoke_typed_called:
  assumes pb: "CodecType (opt t) = PBCodecName ext"
    and stub: "stubInvoker t = StubObj ms"
    and meth: "ms methodName = Some f"
    and call: "f inp (h2Controller t) = (Inr res, h)"
    and len: "1 < length res"
    and slot: "res ! 1 = Valid x"
  shows "Invoke ext t methodName inp reply =
     (case x of
        IErrorWithAttachment errWithAtta \<Rightarrow>
          (case GetError errWithAtta of
             Some e \<Rightarrow> (Inr (NewErrorWithAttachment (Some e) Map.empty), reply, t\<lparr>h2Controller := h\<rparr>)
           | None \<Rightarrow> (Inr (NewErrorWithAttachment None (GetAttachments errWithAtta)),
                      snd (ReflectResponse ext (res ! 0) reply), t\<lparr>h2Controller := h\<rparr>))
      | INil \<Rightarrow> (Inr (NewErrorWithAttachment None Map.empty),
                 snd (ReflectResponse ext (res ! 0) reply), t\<lparr>h2Controller := h\<rparr>)
      | IError e \<Rightarrow> (Inr (NewErrorWithAttachment (Some e) Map.empty), reply, t\<lparr>h2Controller := h\<rparr>)
      | _ \<Rightarrow> (Inl (TypeAssertionError ''error''), reply, t\<lparr>h2Controller := h\<rparr>))"
  using assms
  by (simp add: Invoke_def Let_def split: iface.splits option.splits)

text \<open>Facts about the concrete client, shared by the instances below.\<close>

lemma example_pb: "CodecType (opt example_pb_client) = PBCodecName example_ext"
  by (simp add: example_pb_client_def example_ext_def)

lemma example_dyn: "CodecType (opt example_dyn_client) \<noteq> PBCodecName example_ext"
  by (simp add: example_dyn_client_def example_ext_def)

lemma example_stubInvoker: "stubInvoker example_pb_client = StubObj example_stub"
  by (simp add: example_pb_client_def)

lemma example_method_call:
  "example_method path slot1 inp (h2Controller example_pb_client) =
     (Inr [Valid (IOther ''user''), slot1], [UnaryInvoked path (ISlice [])])"
  by (simp add: example_method_def example_pb_client_def)

lemma example_len: "1 < length [Valid (IOther ''user''), slot1]"
  by simp

text \<open>
  C5. In typed mode, when the second result of the bound method signals an error (an
  ErrorWithAttachment whose error is not \<^verbatim>\<open>nil\<close>, or a plain error that is not \<^verbatim>\<open>nil\<close>),
  \<open>Invoke\<close> returns that error and the reply target is as it was before the call; the
  client differs only by what the bound method did to the controller.
\<close>

theorem Invoke_typed_error_keeps_reply:
  assumes pb: "CodecType (opt t) = PBCodecName ext"
    and stub: "stubInvoker t = StubObj ms"
    and meth: "ms methodName = Some f"
    and call: "f inp (h2Controller t) = (Inr res, h)"
    and len: "1 < length res"
    and slot: "res ! 1 = Valid (IErrorWithAttachment ewa) \<and> GetError ewa = Some e
               \<or> res ! 1 = Valid (IError e)"
  shows "Invoke ext t methodName inp reply =
           (Inr (NewErrorWithAttachment (Some e) Map.empty), reply, t\<lparr>h2Controller := h\<rparr>)"
  using slot
proof
  assume "res ! 1 = Valid (IErrorWithAttachment ewa) \<and> GetError ewa = Some e"
  then show ?thesis
    using Invoke_typed_called
      [OF pb stub meth call len, where x = "IErrorWithAttachment ewa" and reply = reply]
    by simp
next
  assume "res ! 1 = Valid (IError e)"
  then show ?thesis
    using Invoke_typed_called [OF pb stub meth call len, where x = "IError e" and reply = reply]
    by simp
qed

theorem Invoke_typed_error_keeps_reply_witness:
  "CodecType (opt example_pb_client) = PBCodecName example_ext
   \<and> stubInvoker example_pb_client = StubObj example_stub
   \<and> example_stub ''SayHelloDown''
       = Some (example_method ''/greeter/SayHelloDown''
           (Valid (IErrorWithAttachment
              \<lparr>err = Some (StatusError Unavailable ''down''),
               attachments = [''trace'' \<mapsto> ''t2'']\<rparr>)))
   \<and> Invoke example_ext example_pb_client ''SayHelloDown''
        [Valid (IContext []), Valid (IOther ''req'')] (IOther ''earlier reply'')
       = (Inr \<lparr>err = Some (StatusError Unavailable ''down''), attachments = Map.empty\<rparr>,
          IOther ''earlier reply'',
          example_pb_client\<lparr>h2Controller := [UnaryInvoked ''/greeter/SayHelloDown'' (ISlice [])]\<rparr>)"
proof -
  let ?ewa = "\<lparr>err = Some (StatusError Unavailable ''down''),
               attachments = [''trace'' \<mapsto> ''t2'']\<rparr>"
  let ?slot1 = "Valid (IErrorWithAttachment ?ewa)"
  have meth: "example_stub ''SayHelloDown'' = Some (example_method ''/greeter/SayHelloDown'' ?slot1)"
    by (simp add: example_stub_def)
  have slot: "[Valid (IOther ''user''), ?slot1] ! 1 = Valid (IErrorWithAttachment ?ewa)
                 \<and> GetError ?ewa = Some (StatusError Unavailable ''down'')
              \<or> [Valid (IOther ''user''), ?slot1] ! 1 = Valid (IError (StatusError Unavailable ''down''))"
    by (simp add: GetError_def)
  show ?thesis
    using example_pb example_stubInvoker meth
      Invoke_typed_error_keeps_reply
        [OF example_pb example_stubInvoker meth example_method_call example_len slot,
         where reply = "IOther ''earlier reply''"]
    by (simp add: NewErrorWithAttachment_def)
qed

text \<open>
  C9. In typed mode, when the second result is an ErrorWithAttachment whose error is not
  \<^verbatim>\<open>nil\<close>, \<open>Invoke\<close> returns that error with the empty attachment map it made on entry,
  whatever attachments the ErrorWithAttachment carried.
\<close>

theorem Invoke_typed_error_drops_attachments:
  assumes pb: "CodecType (opt t) = PBCodecName ext"
    and stub: "stubInvoker t = StubObj ms"
    and meth: "ms methodName = Some f"
    and call: "f inp (h2Controller t) = (Inr res, h)"
    and len: "1 < length res"
    and slot: "res ! 1 = Valid (IErrorWithAttachment \<lparr>err = Some e, attachments = att\<rparr>)"
  shows "fst (Invoke ext t methodName inp reply) = Inr \<lparr>err = Some e, attachments = Map.empty\<rparr>"
  using Invoke_typed_called [OF pb stub meth call len slot, where reply = reply]
  by (simp add: GetError_def NewErrorWithAttachment_def)

theorem Invoke_typed_error_drops_attachments_witness:
  "CodecType (opt example_pb_client) = PBCodecName example_ext
   \<and> stubInvoker example_pb_client = StubObj example_stub
   \<and> example_stub ''SayHelloDown''
       = Some (example_method ''/greeter/SayHelloDown''
           (Valid (IErrorWithAttachment
              \<lparr>err = Some (StatusError Unavailable ''down''),
               attachments = [''trace'' \<mapsto> ''t2'']\<rparr>)))
   \<and> fst (Invoke example_ext example_pb_client ''SayHelloDown''
        [Valid (IContext []), Valid (IOther ''req'')] INil)
       = Inr \<lparr>err = Some (StatusError Unavailable ''down''), attachments = Map.empty\<rparr>"
proof -
  let ?ewa = "\<lparr>err = Some (StatusError Unavailable ''down''),
               attachments = [''trace'' \<mapsto> ''t2'']\<rparr>"
  let ?slot1 = "Valid (IErrorWithAttachment ?ewa)"
  have meth: "example_stub ''SayHelloDown'' = Some (example_method ''/greeter/SayHelloDown'' ?slot1)"
    by (simp add: example_stub_def)
  have slot: "[Valid (IOther ''user''), ?slot1] ! 1 = Valid (IErrorWithAttachment ?ewa)"
    by simp
  show ?thesis
    using example_pb example_stubInvoker meth
      Invoke_typed_error_drops_attachments
        [OF example_pb example_stubInvoker meth example_method_call example_len slot,
         where reply = INil]
    by simp
qed

text \<open>
  C7. In typed mode, a second result that is a plain error, not \<^verbatim>\<open>nil\<close> and not an
  ErrorWithAttachment, makes \<open>Invoke\<close> return that error with an empty attachment map;
  a stub that differs only in giving the same error inside an ErrorWithAttachment (with
  any attachments) gets the same outcome and the same reply target.
\<close>

theorem Invoke_typed_plain_error:
  assumes pb: "CodecType (opt t) = PBCodecName ext"
    and stub: "stubInvoker t = StubObj ms"
    and meth: "ms methodName = Some f"
    and call: "f inp (h2Controller t) = (Inr res, h)"
    and len: "1 < length res"
    and slot: "res ! 1 = Valid (IError e)"
  shows "fst (Invoke ext t methodName inp reply) = Inr \<lparr>err = Some e, attachments = Map.empty\<rparr>
    \<and> (let res' = res[1 := Valid (IErrorWithAttachment \<lparr>err = Some e, attachments = att\<rparr>)];
            t' = t\<lparr>stubInvoker := StubObj (ms(methodName \<mapsto> (\<lambda>inp h0. (Inr res', h))))\<rparr>
        in fst (Invoke ext t' methodName inp reply) = fst (Invoke ext t methodName inp reply)
           \<and> fst (snd (Invoke ext t' methodName inp reply))
               = fst (snd (Invoke ext t methodName inp reply)))"
proof -
  let ?res' = "res[1 := Valid (IErrorWithAttachment \<lparr>err = Some e, attachments = att\<rparr>)]"
  let ?f' = "\<lambda>(inp::reflect_Value list) (h0::'a). (Inr ?res' :: panic + reflect_Value list, h)"
  let ?ms' = "ms(methodName \<mapsto> ?f')"
  let ?t' = "t\<lparr>stubInvoker := StubObj ?ms'\<rparr>"
  have old: "Invoke ext t methodName inp reply =
      (Inr (NewErrorWithAttachment (Some e) Map.empty), reply, t\<lparr>h2Controller := h\<rparr>)"
    using Invoke_typed_called [OF pb stub meth call len slot, where reply = reply] by simp
  have pb': "CodecType (opt ?t') = PBCodecName ext" using pb by simp
  have stub': "stubInvoker ?t' = StubObj ?ms'" by simp
  have meth': "?ms' methodName = Some ?f'" by simp
  have call': "?f' inp (h2Controller ?t') = (Inr ?res', h)" by simp
  have len': "1 < length ?res'" using len by simp
  have slot': "?res' ! 1 = Valid (IErrorWithAttachment \<lparr>err = Some e, attachments = att\<rparr>)"
    using len by simp
  have new: "Invoke ext ?t' methodName inp reply =
      (Inr (NewErrorWithAttachment (Some e) Map.empty), reply, ?t'\<lparr>h2Controller := h\<rparr>)"
    using Invoke_typed_called [OF pb' stub' meth' call' len' slot', where reply = reply]
    by (simp add: GetError_def)
  show ?thesis
    unfolding Let_def old new by (simp add: NewErrorWithAttachment_def)
qed

theorem Invoke_typed_plain_error_witness:
  "CodecType (opt example_pb_client) = PBCodecName example_ext
   \<and> stubInvoker example_pb_client = StubObj example_stub
   \<and> example_stub ''OldSayHelloDown''
       = Some (example_method ''/greeter/OldSayHelloDown'' (Valid (IError (PlainError ''down''))))
   \<and> fst (Invoke example_ext example_pb_client ''OldSayHelloDown''
        [Valid (IContext []), Valid (IOther ''req'')] INil)
       = Inr \<lparr>err = Some (PlainError ''down''), attachments = Map.empty\<rparr>"
proof -
  let ?slot1 = "Valid (IError (PlainError ''down''))"
  have meth: "example_stub ''OldSayHelloDown'' = Some (example_method ''/greeter/OldSayHelloDown'' ?slot1)"
    by (simp add: example_stub_def)
  have slot: "[Valid (IOther ''user''), ?slot1] ! 1 = Valid (IError (PlainError ''down''))"
    by simp
  show ?thesis
    using example_pb example_stubInvoker meth
      Invoke_typed_plain_error
        [OF example_pb example_stubInvoker meth example_method_call example_len slot,
         where reply = INil and att = Map.empty]
    by simp
qed




text \<open>
  C10. In typed mode on the success path, when \<open>ReflectResponse\<close> returns an error,
  \<open>Invoke\<close> drops it: the outcome is still a \<^verbatim>\<open>nil\<close> error with the attachments, and the
  reply target is whatever the failed copy left.
\<close>

theorem Invoke_typed_copy_error_discarded:
  assumes pb: "CodecType (opt t) = PBCodecName ext"
    and stub: "stubInvoker t = StubObj ms"
    and meth: "ms methodName = Some f"
    and call: "f inp (h2Controller t) = (Inr res, h)"
    and len: "1 < length res"
    and slot: "res ! 1 = Valid (IErrorWithAttachment ewa) \<and> GetError ewa = None
                 \<and> att = GetAttachments ewa
               \<or> res ! 1 = Valid INil \<and> att = Map.empty"
    and copy: "ReflectResponse ext (res ! 0) reply = (Some copy_error, reply')"
  shows "Invoke ext t methodName inp reply =
           (Inr (NewErrorWithAttachment None att), reply', t\<lparr>h2Controller := h\<rparr>)"
  using slot
proof
  assume "res ! 1 = Valid (IErrorWithAttachment ewa) \<and> GetError ewa = None
            \<and> att = GetAttachments ewa"
  then show ?thesis
    using copy Invoke_typed_called
      [OF pb stub meth call len, where x = "IErrorWithAttachment ewa" and reply = reply]
    by simp
next
  assume "res ! 1 = Valid INil \<and> att = Map.empty"
  then show ?thesis
    using copy Invoke_typed_called [OF pb stub meth call len, where x = INil and reply = reply]
    by simp
qed

theorem Invoke_typed_copy_error_discarded_witness:
  "CodecType (opt example_pb_client) = PBCodecName example_ext
   \<and> stubInvoker example_pb_client = StubObj example_stub
   \<and> example_stub ''OldSayHello'' = Some (example_method ''/greeter/OldSayHello'' (Valid INil))
   \<and> ReflectResponse example_ext (Valid (IOther ''user'')) INil
       = (Some (PlainError ''@out is nil''), INil)
   \<and> Invoke example_ext example_pb_client ''OldSayHello''
        [Valid (IContext []), Valid (IOther ''req'')] INil
       = (Inr \<lparr>err = None, attachments = Map.empty\<rparr>, INil,
          example_pb_client\<lparr>h2Controller := [UnaryInvoked ''/greeter/OldSayHello'' (ISlice [])]\<rparr>)"
proof -
  let ?slot1 = "Valid INil"
  let ?ewa = "\<lparr>err = None, attachments = Map.empty\<rparr>"
  have meth: "example_stub ''OldSayHello'' = Some (example_method ''/greeter/OldSayHello'' ?slot1)"
    by (simp add: example_stub_def)
  have slot: "[Valid (IOther ''user''), ?slot1] ! 1 = Valid (IErrorWithAttachment ?ewa)
                 \<and> GetError ?ewa = None \<and> Map.empty = GetAttachments ?ewa
              \<or> [Valid (IOther ''user''), ?slot1] ! 1 = Valid INil \<and> Map.empty = Map.empty"
    by simp
  have copy: "ReflectResponse example_ext ([Valid (IOther ''user''), ?slot1] ! 0) INil
                = (Some (PlainError ''@out is nil''), INil)"
    by (simp add: example_ext_def)
  show ?thesis
    using example_pb example_stubInvoker meth copy
      Invoke_typed_copy_error_discarded
        [OF example_pb example_stubInvoker meth example_method_call example_len slot copy]
    by (simp add: NewErrorWithAttachment_def)
qed

section \<open>Construction\<close>

lemma stubInvoker_Invoke: "stubInvoker (snd (snd (Invoke ext t methodName inp reply))) = stubInvoker t"
  by (simp add: Invoke_def Request_def Let_def
      split: sum.splits prod.splits iface.splits option.splits list.splits)

lemma stubInvoker_client_after: "stubInvoker (client_after ext c t) = stubInvoker t"
  by (cases c)
    (simp_all add: stubInvoker_Invoke Request_def StreamRequest_def Close_def split: prod.splits)

lemma stubInvoker_fold_client_after: "stubInvoker (fold (client_after ext) cs t) = stubInvoker t"
  by (induction cs arbitrary: t) (simp_all add: stubInvoker_client_after)

lemma Invoke_dynamic_ignores_stub:
  assumes "CodecType (opt t) \<noteq> PBCodecName ext"
  shows "Invoke ext (t\<lparr>stubInvoker := s\<rparr>) methodName inp reply =
     (case Invoke ext t methodName inp reply of
        (r, reply', t') \<Rightarrow> (r, reply', t'\<lparr>stubInvoker := s\<rparr>))"
  using assms
  by (simp add: Invoke_def Request_def
      split: sum.splits prod.splits iface.splits option.splits list.splits)

text \<open>
  C8. A client that \<open>NewTripleClient\<close> returns holds, when the codec of its options is the
  protobuf one, the stub that \<open>getInvoker\<close> built (the zero Value when \<open>getInvoker\<close>
  returned \<^verbatim>\<open>nil\<close>), and holds no stub for any other codec; for another codec what
  \<open>Invoke\<close> returns, leaves in the reply target and does to the controller is the same
  whatever \<open>stubInvoker\<close> holds; and no sequence of calls on the client's surface changes
  \<open>stubInvoker\<close>.
\<close>

theorem NewTripleClient_stubInvoker:
  assumes new: "NewTripleClient ext impl opt0 = Inr t"
  shows "stubInvoker t =
           (if CodecType (opt t) = PBCodecName ext
            then (case getInvoker ext impl of None \<Rightarrow> NoStub | Some built \<Rightarrow> StubObj built)
            else NoStub)
    \<and> (CodecType (opt t) \<noteq> PBCodecName ext \<longrightarrow>
          Invoke ext (t\<lparr>stubInvoker := s\<rparr>) methodName inp reply =
            (case Invoke ext t methodName inp reply of
               (r, reply', t') \<Rightarrow> (r, reply', t'\<lparr>stubInvoker := s\<rparr>)))
    \<and> stubInvoker (fold (client_after ext) cs t) = stubInvoker t"
proof (intro conjI impI)
  show "stubInvoker t =
           (if CodecType (opt t) = PBCodecName ext
            then (case getInvoker ext impl of None \<Rightarrow> NoStub | Some built \<Rightarrow> StubObj built)
            else NoStub)"
    using new
    by (auto simp: NewTripleClient_def Let_def split: sum.splits if_splits option.splits)
next
  assume "CodecType (opt t) \<noteq> PBCodecName ext"
  then show "Invoke ext (t\<lparr>stubInvoker := s\<rparr>) methodName inp reply =
            (case Invoke ext t methodName inp reply of
               (r, reply', t') \<Rightarrow> (r, reply', t'\<lparr>stubInvoker := s\<rparr>))"
    by (rule Invoke_dynamic_ignores_stub)
next
  show "stubInvoker (fold (client_after ext) cs t) = stubInvoker t"
    by (rule stubInvoker_fold_client_after)
qed

text \<open>
  Both codecs. With the protobuf codec the new client holds the stub that \<open>getInvoker\<close>
  built, and still holds it after a typed call that reaches the controller, a request, a
  stream request, an availability check and a close. With another codec the new client
  holds no stub, and a call in dynamic mode goes to the controller by its path even when a
  stub is put into the client.
\<close>

theorem NewTripleClient_stubInvoker_witness:
  "NewTripleClient example_ext INil (Some \<lparr>CodecType = ''protobuf''\<rparr>) = Inr example_pb_client
   \<and> getInvoker example_ext INil = Some example_stub
   \<and> stubInvoker example_pb_client = StubObj example_stub
   \<and> stubInvoker (fold (client_after example_ext)
        [CallInvoke ''SayHello'' [Valid (IContext []), Valid (IOther ''req'')] (IOther ''earlier reply''),
         CallRequest [] ''/greeter/SayHello'' (ISlice [IOther ''req'']) INil,
         CallStreamRequest [] ''/greeter/Stream'',
         CallIsAvailable,
         CallClose] example_pb_client) = StubObj example_stub
   \<and> NewTripleClient example_ext INil (Some \<lparr>CodecType = ''hessian2''\<rparr>) = Inr example_dyn_client
   \<and> CodecType (opt example_dyn_client) \<noteq> PBCodecName example_ext
   \<and> stubInvoker example_dyn_client = NoStub
   \<and> Invoke example_ext (example_dyn_client\<lparr>stubInvoker := StubObj example_stub\<rparr>)
        ''SayHello'' [Valid (IContext [(''interface'', IString ''greeter'')]), Valid (IOther ''req'')]
        INil
       = (Inr \<lparr>err = None, attachments = Map.empty\<rparr>, IOther ''response'',
          example_dyn_client\<lparr>h2Controller :=
              [UnaryInvoked ''/greeter/SayHello'' (ISlice [IOther ''req''])],
            stubInvoker := StubObj example_stub\<rparr>)
   \<and> stubInvoker (fold (client_after example_ext)
        [CallInvoke ''SayHello''
           [Valid (IContext [(''interface'', IString ''greeter'')]), Valid (IOther ''req'')] INil,
         CallIsAvailable,
         CallClose] example_dyn_client) = NoStub"
proof -
  let ?inp = "[Valid (IContext [(''interface'', IString ''greeter'')]), Valid (IOther ''req'')]"
  have new_pb: "NewTripleClient example_ext INil (Some \<lparr>CodecType = ''protobuf''\<rparr>)
                  = Inr example_pb_client"
    by (simp add: NewTripleClient_def example_ext_def example_pb_client_def)
  have new_dyn: "NewTripleClient example_ext INil (Some \<lparr>CodecType = ''hessian2''\<rparr>)
                   = Inr example_dyn_client"
    by (simp add: NewTripleClient_def example_ext_def example_dyn_client_def)
  have built: "getInvoker example_ext INil = Some example_stub"
    by (simp add: example_ext_def)
  have run: "Invoke example_ext example_dyn_client ''SayHello'' ?inp INil
       = (Inr \<lparr>err = None, attachments = Map.empty\<rparr>, IOther ''response'',
          example_dyn_client\<lparr>h2Controller :=
              [UnaryInvoked ''/greeter/SayHello'' (ISlice [IOther ''req''])]\<rparr>)"
    by (simp add: Invoke_def Request_def ctx_Value_def example_ext_def example_dyn_client_def)
  show ?thesis
    using new_pb new_dyn built example_pb example_dyn run
      NewTripleClient_stubInvoker [OF new_pb, where
        cs = "[CallInvoke ''SayHello'' [Valid (IContext []), Valid (IOther ''req'')]
                 (IOther ''earlier reply''),
               CallRequest [] ''/greeter/SayHello'' (ISlice [IOther ''req'']) INil,
               CallStreamRequest [] ''/greeter/Stream'',
               CallIsAvailable,
               CallClose]"]
      NewTripleClient_stubInvoker [OF new_dyn, where s = "StubObj example_stub"
        and methodName = "''SayHello''" and inp = ?inp and reply = INil
        and cs = "[CallInvoke ''SayHello'' ?inp INil, CallIsAvailable, CallClose]"]
    by simp
qed

section \<open>Where the code departs from the spec\<close>

text \<open>
  C1, as the code has it. In dynamic mode, when the context in the first argument has no
  value for the interface key, \<open>Invoke\<close> returns no outcome: the assertion of the \<^verbatim>\<open>nil\<close>
  value to \<^verbatim>\<open>string\<close> panics. This happens before any call on the controller, and the
  reply target and the client are as they were.
\<close>

theorem Invoke_dynamic_missing_key_panics:
  assumes dyn: "CodecType (opt t) \<noteq> PBCodecName ext"
    and nokey: "ctx_Value ctx (InterfaceKey ext) = INil"
  shows "Invoke ext t methodName (Valid (IContext ctx) # rest) reply =
           (Inl (TypeAssertionError ''string''), reply, t)"
  using dyn nokey by (simp add: Invoke_def)

theorem Invoke_dynamic_missing_key_panics_witness:
  "CodecType (opt example_dyn_client) \<noteq> PBCodecName example_ext
   \<and> ctx_Value [(''timeout'', IString ''3s'')] (InterfaceKey example_ext) = INil
   \<and> Invoke example_ext example_dyn_client ''BigUnaryTest''
        (Valid (IContext [(''timeout'', IString ''3s'')]) # [Valid (IOther ''req'')]) INil
       = (Inl (TypeAssertionError ''string''), INil, example_dyn_client)"
proof -
  have nokey: "ctx_Value [(''timeout'', IString ''3s'')] (InterfaceKey example_ext) = INil"
    by (simp add: ctx_Value_def example_ext_def)
  show ?thesis
    using example_dyn nokey
      Invoke_dynamic_missing_key_panics [OF example_dyn nokey, where methodName = "''BigUnaryTest''"
        and rest = "[Valid (IOther ''req'')]" and reply = INil]
    by simp
qed

text \<open>
  C1, as the spec has it, fails: with an empty context the call ends in a panic, not in an
  outcome of kind \<open>InvalidArgument\<close>.
\<close>

theorem Invoke_dynamic_missing_key_counterexample:
  "CodecType (opt example_dyn_client) \<noteq> PBCodecName example_ext
   \<and> ctx_Value [] (InterfaceKey example_ext) = INil
   \<and> fst (Invoke example_ext example_dyn_client ''BigUnaryTest''
        [Valid (IContext []), Valid (IOther ''req'')] INil)
       = Inl (TypeAssertionError ''string'')"
  by (simp add: Invoke_def ctx_Value_def example_ext_def example_dyn_client_def)

text \<open>
  In typed mode a method name that the stub does not have ends \<open>Invoke\<close> in the panic of
  \<^verbatim>\<open>IsZero\<close> on the zero Value that \<^verbatim>\<open>MethodByName\<close> returned: the branch that builds the
  \<open>Unimplemented\<close> error is never reached.
\<close>

lemma Invoke_typed_unknown_method:
  assumes "CodecType (opt t) = PBCodecName ext"
    and "stubInvoker t = StubObj ms"
    and "ms methodName = None"
  shows "Invoke ext t methodName inp reply = (Inl (ValueError ''reflect.Value.IsZero''), reply, t)"
  using assms by (simp add: Invoke_def)

text \<open>
  C3 at the stub of the concrete client, which has no method \<open>SayGoodbye\<close>: no transport
  call is made and the reply target is untouched, but the call panics instead of
  returning an outcome of kind \<open>Unimplemented\<close>.
\<close>

theorem Invoke_unknown_method_panics:
  "CodecType (opt example_pb_client) = PBCodecName example_ext
   \<and> stubInvoker example_pb_client = StubObj example_stub
   \<and> example_stub ''SayGoodbye'' = None
   \<and> Invoke example_ext example_pb_client ''SayGoodbye''
        [Valid (IContext []), Valid (IOther ''req'')] INil
       = (Inl (ValueError ''reflect.Value.IsZero''), INil, example_pb_client)"
proof -
  have absent: "example_stub ''SayGoodbye'' = None"
    by (simp add: example_stub_def)
  show ?thesis
    using example_pb example_stubInvoker absent
      Invoke_typed_unknown_method [OF example_pb example_stubInvoker absent]
    by simp
qed

text \<open>\<open>Close\<close> calls the controller's \<open>Destroy\<close> each time and never reads or sets \<open>once\<close>.\<close>

lemma Close_Close:
  "Close ext (Close ext t) = t\<lparr>h2Controller := Destroy ext (Destroy ext (h2Controller t))\<rparr>"
  by (simp add: Close_def)

text \<open>
  C2 at the concrete client: after two calls of \<open>Close\<close> in sequence the controller has
  run \<open>Destroy\<close> twice, and the \<open>once\<close> flag is still unset.
\<close>

theorem Close_twice_destroys_twice:
  "h2Controller (Close example_ext (Close example_ext example_pb_client)) = [Destroyed, Destroyed]
   \<and> once (Close example_ext (Close example_ext example_pb_client)) = False"
  by (simp add: Close_Close example_ext_def example_pb_client_def)

end
